theory Spec2Isabelle
  imports Complex_Main
begin

section \<open>cinemai: a conversational movie assistant\<close>

text \<open>
  A shallow embedding of \<^verbatim>\<open>cinemai.py\<close> and \<^verbatim>\<open>utils/response_handler.py\<close>.
  The program is a read-classify-dispatch-answer loop around two external services,
  a language model and a graph question-answering chain. Both are parameters of the
  model; the session store, the handler classes, the dispatch, the turn and the
  shutdown path are translated from the source.
\<close>

subsection \<open>Python values\<close>

text \<open>
  A Python \<^verbatim>\<open>str\<close> is a sequence of Unicode code points; indexing and slicing count
  code points. It is modelled as a list of code points, so that \<^verbatim>\<open>s[0]\<close> and
  \<^verbatim>\<open>s[3:]\<close> mean what they mean in Python for every text. \<open>py\<close> turns a literal
  into that representation.
\<close>

type_synonym pystr = "nat list"

definition py :: "string \<Rightarrow> pystr" where
  "py s = map of_char s"

text \<open>
  The exceptions the model distinguishes. \<open>KeyboardInterrupt\<close> derives from
  \<^verbatim>\<open>BaseException\<close> only; all others are subclasses of \<^verbatim>\<open>Exception\<close>. \<open>OtherException\<close>
  stands for every exception class of the external services (its argument is the
  exception's text).
\<close>

datatype py_error =
    IndexError
  | KeyError
  | ValueError
  | KeyboardInterrupt
  | OtherException pystr

text \<open>What \<^verbatim>\<open>except Exception\<close> catches.\<close>

fun is_Exception :: "py_error \<Rightarrow> bool" where
  "is_Exception KeyboardInterrupt = False"
| "is_Exception _ = True"

text \<open>\<^verbatim>\<open>s[i]\<close> for an index \<open>i \<ge> 0\<close>: a string of one character, or IndexError.\<close>

definition str_getitem :: "pystr \<Rightarrow> nat \<Rightarrow> py_error + pystr" where
  "str_getitem s i = (if i < length s then Inr [s ! i] else Inl IndexError)"

subsection \<open>utils/response\_handler.py\<close>

datatype ResponseTypes = QUERY | MEMORY | FEEDBACK | INVALID

fun ResponseTypes_value :: "ResponseTypes \<Rightarrow> pystr" where
  "ResponseTypes_value QUERY = py ''Q''"
| "ResponseTypes_value MEMORY = py ''M''"
| "ResponseTypes_value FEEDBACK = py ''F''"
| "ResponseTypes_value INVALID = py ''I''"

definition ResponseTypes_members :: "ResponseTypes list" where
  "ResponseTypes_members = [QUERY, MEMORY, FEEDBACK, INVALID]"

text \<open>
  \<^verbatim>\<open>ResponseTypes(v)\<close>: the lookup of an enum member by value, which raises ValueError
  when no member has the value.
\<close>

definition ResponseTypes_call :: "pystr \<Rightarrow> py_error + ResponseTypes" where
  "ResponseTypes_call v =
     (case find (\<lambda>m. ResponseTypes_value m = v) ResponseTypes_members of
        None \<Rightarrow> Inl ValueError
      | Some m \<Rightarrow> Inr m)"

text \<open>
  The four handler classes. An instance has no state but the attribute \<^verbatim>\<open>type_\<close>
  (\<open>handler_type\<close> here), which the class's constructor fixes, so an instance is its
  class.
\<close>

datatype ResponseHandler =
    QueryResponseHandler
  | MemoryResponseHandler
  | FeedbackResponseHandler
  | InvalidResponseHandler

fun handler_type :: "ResponseHandler \<Rightarrow> ResponseTypes" where
  "handler_type QueryResponseHandler = QUERY"
| "handler_type MemoryResponseHandler = MEMORY"
| "handler_type FeedbackResponseHandler = FEEDBACK"
| "handler_type InvalidResponseHandler = INVALID"

text \<open>
  The graph chain answers with a dict; the handler reads its \<^verbatim>\<open>'result'\<close> entry and
  formats it into an f-string. The entries are taken to be text.
\<close>

type_synonym db_response = "pystr \<rightharpoonup> pystr"

text \<open>
  \<^verbatim>\<open>get_context(self, *args)\<close> of each class. \<open>args\<close> is the tuple of positional
  arguments. Only the query handler reads it: \<^verbatim>\<open>args[0]['result']\<close> raises IndexError
  on an empty tuple and KeyError on a dict without the key.
\<close>

definition QueryResponseHandler_get_context :: "db_response list \<Rightarrow> py_error + pystr" where
  "QueryResponseHandler_get_context args =
     (case args of
        [] \<Rightarrow> Inl IndexError
      | a # _ \<Rightarrow>
          (case a (py ''result'') of
             None \<Rightarrow> Inl KeyError
           | Some r \<Rightarrow> Inr (py ''Context: database response was '' @ r)))"

definition MemoryResponseHandler_get_context :: "'a list \<Rightarrow> pystr" where
  "MemoryResponseHandler_get_context args = py ''Context: respond using memory history.''"

definition FeedbackResponseHandler_get_context :: "'a list \<Rightarrow> pystr" where
  "FeedbackResponseHandler_get_context args = py ''Context: user provided feedback.''"

definition InvalidResponseHandler_get_context :: "'a list \<Rightarrow> pystr" where
  "InvalidResponseHandler_get_context args = py ''Context: user provided invalid query.''"

text \<open>The method call \<^verbatim>\<open>handler.get_context(*args)\<close>, dispatched on the handler's class.\<close>

fun get_context :: "ResponseHandler \<Rightarrow> db_response list \<Rightarrow> py_error + pystr" where
  "get_context QueryResponseHandler args = QueryResponseHandler_get_context args"
| "get_context MemoryResponseHandler args = Inr (MemoryResponseHandler_get_context args)"
| "get_context FeedbackResponseHandler args = Inr (FeedbackResponseHandler_get_context args)"
| "get_context InvalidResponseHandler args = Inr (InvalidResponseHandler_get_context args)"

text \<open>\<^verbatim>\<open>ResponseHandlerFactory.create_response_handler\<close>, with its chain of comparisons.\<close>

definition create_response_handler :: "ResponseTypes \<Rightarrow> ResponseHandler" where
  "create_response_handler t =
     (if t = QUERY then QueryResponseHandler
      else if t = MEMORY then MemoryResponseHandler
      else if t = FEEDBACK then FeedbackResponseHandler
      else if t = INVALID then InvalidResponseHandler
      else InvalidResponseHandler)"

subsection \<open>The session store\<close>

text \<open>
  \<^verbatim>\<open>_SESSION_STORE\<close> is a dict from session ids to \<^verbatim>\<open>ChatMessageHistory\<close> objects. The
  objects are mutable and shared by reference, so the model keeps them in a heap:
  an address is an index into the list of allocated objects, and an object is its
  list of messages, oldest first. The state also holds what the program does to
  its environment: the calls it sends to the two services, the lines it prints and
  the files it writes.
\<close>

datatype role = Human | AI

type_synonym message = "role \<times> pystr"

type_synonym addr = nat

record state =
  SESSION_STORE :: "pystr \<rightharpoonup> addr"
  heap :: "message list list"
  llm_calls :: "(pystr \<times> pystr) list"
  db_calls :: "pystr list"
  console :: "pystr list"
  files :: "pystr \<rightharpoonup> pystr"

definition initial_state :: state where
  "initial_state =
     \<lparr>SESSION_STORE = Map.empty, heap = [], llm_calls = [], db_calls = [],
      console = [], files = Map.empty\<rparr>"

text \<open>\<^verbatim>\<open>ChatMessageHistory()\<close>: a new object with no messages, at a fresh address.\<close>

definition ChatMessageHistory :: "state \<Rightarrow> addr \<times> state" where
  "ChatMessageHistory st = (length (heap st), st\<lparr>heap := heap st @ [[]]\<rparr>)"

text \<open>The \<^verbatim>\<open>messages\<close> attribute of the object at an address.\<close>

definition messages :: "state \<Rightarrow> addr \<Rightarrow> message list" where
  "messages st a = heap st ! a"

text \<open>
  Modelled from the spec: \<^verbatim>\<open>ChatMessageHistory.add_message\<close> belongs to the langchain
  library and is not part of the sources. The spec describes a session's history as
  an ordered, append-only sequence of turns (role and text): adding a message
  appends it to the object's list.
\<close>

definition add_message :: "addr \<Rightarrow> message \<Rightarrow> state \<Rightarrow> state" where
  "add_message a m st = st\<lparr>heap := (heap st)[a := heap st ! a @ [m]]\<rparr>"

text \<open>\<^verbatim>\<open>get_session_history(session_id)\<close>: returns a reference and the store as updated.\<close>

definition get_session_history :: "pystr \<Rightarrow> state \<Rightarrow> addr \<times> state" where
  "get_session_history session_id st =
     (case SESSION_STORE st session_id of
        None \<Rightarrow>
          (let (a, st') = ChatMessageHistory st
           in (a, st'\<lparr>SESSION_STORE := (SESSION_STORE st')(session_id \<mapsto> a)\<rparr>))
      | Some a \<Rightarrow> (a, st))"

text \<open>
  Every address in the store is the address of an allocated object. The operations
  keep this, so \<open>messages\<close> is only ever read at an allocated address.
\<close>

definition store_ok :: "state \<Rightarrow> bool" where
  "store_ok st = (\<forall>a \<in> ran (SESSION_STORE st). a < length (heap st))"

text \<open>
  The appends of the history-aware wrapper, one after the other: each looks the
  session up in the store and adds its message to the object the lookup returns.
\<close>

fun append_turns :: "pystr \<Rightarrow> message list \<Rightarrow> state \<Rightarrow> state" where
  "append_turns session_id [] st = st"
| "append_turns session_id (m # ms) st =
     (let (a, st1) = get_session_history session_id st
      in append_turns session_id ms (add_message a m st1))"

subsection \<open>The external services\<close>

text \<open>
  The language model (\<^verbatim>\<open>system_prompt | llm\<close>) gets the session's history and the
  question and returns the content of its answer, or raises. The graph chain gets a
  question and returns a dict, or raises. Neither is a function of its input alone
  (the model samples, the database changes), so each also gets the number of calls
  made before: every call may answer anything.
\<close>

type_synonym llm = "nat \<Rightarrow> message list \<Rightarrow> pystr \<Rightarrow> py_error + pystr"

type_synonym cypher_chain = "nat \<Rightarrow> pystr \<Rightarrow> py_error + db_response"

text \<open>
  Modelled from the spec: \<^verbatim>\<open>RunnableWithMessageHistory.invoke\<close> belongs to the langchain
  library and is not part of the sources. By the spec, a call tagged with a session
  id sees that session's history, obtained through the session store's lookup, and
  appends the question and the model's answer to it. The lookup it is constructed
  with is \<open>get_session_history\<close>. A call that raises appends nothing.
\<close>

definition invoke :: "llm \<Rightarrow> pystr \<Rightarrow> pystr \<Rightarrow> state \<Rightarrow> (py_error + pystr) \<times> state" where
  "invoke model session_id question st =
     (let n = length (llm_calls st);
          st0 = st\<lparr>llm_calls := llm_calls st @ [(session_id, question)]\<rparr>;
          (a, st1) = get_session_history session_id st0
      in case model n (messages st1 a) question of
           Inl e \<Rightarrow> (Inl e, st1)
         | Inr content \<Rightarrow>
             (Inr content, add_message a (AI, content) (add_message a (Human, question) st1)))"

subsection \<open>cinemai.py: the session id\<close>

definition ascii_lowercase :: pystr where
  "ascii_lowercase = py ''abcdefghijklmnopqrstuvwxyz''"

definition ascii_uppercase :: pystr where
  "ascii_uppercase = py ''ABCDEFGHIJKLMNOPQRSTUVWXYZ''"

definition ascii_letters :: pystr where
  "ascii_letters = ascii_lowercase @ ascii_uppercase"

definition digits :: pystr where
  "digits = py ''0123456789''"

text \<open>
  \<^verbatim>\<open>random.choices(population, k=k)\<close> of the standard library draws \<open>k\<close> times with
  replacement: \<^verbatim>\<open>[population[floor(random() * n)] for i in range(k)]\<close> with \<open>n\<close> the
  size of the population. The generator is a parameter: \<open>rnd i\<close> is the value of
  the \<open>i\<close>-th call of \<^verbatim>\<open>random()\<close>, a number in \<open>[0, 1)\<close>.
\<close>

definition random_choices :: "(nat \<Rightarrow> real) \<Rightarrow> 'a list \<Rightarrow> nat \<Rightarrow> 'a list" where
  "random_choices rnd population k =
     map (\<lambda>i. population ! nat \<lfloor>rnd i * real (length population)\<rfloor>) [0..<k]"

text \<open>Iterating a string yields its characters as strings of length one.\<close>

definition chars :: "pystr \<Rightarrow> pystr list" where
  "chars s = map (\<lambda>c. [c]) s"

text \<open>\<^verbatim>\<open>"".join(...)\<close>\<close>

definition join_empty :: "pystr list \<Rightarrow> pystr" where
  "join_empty ss = concat ss"

definition generate_session_id :: "(nat \<Rightarrow> real) \<Rightarrow> nat \<Rightarrow> pystr" where
  "generate_session_id rnd len =
     join_empty (random_choices rnd (chars (ascii_letters @ digits)) len)"

text \<open>
  The spec's words for the characters of a session id, to compare with the
  alphabet of the source: an ASCII digit, capital or small letter, by code point.
\<close>

definition ascii_alphanumeric :: "nat \<Rightarrow> bool" where
  "ascii_alphanumeric c = ((48 \<le> c \<and> c \<le> 57) \<or> (65 \<le> c \<and> c \<le> 90) \<or> (97 \<le> c \<and> c \<le> 122))"

subsection \<open>cinemai.py: one turn of the loop\<close>

text \<open>
  The body of \<^verbatim>\<open>main\<close>'s loop in its three parts. First the choice of the handler
  from the classification's content: \<^verbatim>\<open>content[0]\<close> is evaluated inside the
  \<^verbatim>\<open>try\<close>, whose only handler is \<^verbatim>\<open>except ValueError\<close>.
\<close>

definition select_handler :: "pystr \<Rightarrow> py_error + ResponseHandler" where
  "select_handler content =
     (case str_getitem content 0 of
        Inl e \<Rightarrow> (if e = ValueError then Inr (create_response_handler INVALID) else Inl e)
      | Inr c \<Rightarrow>
          (case ResponseTypes_call c of
             Inl e \<Rightarrow> (if e = ValueError then Inr (create_response_handler INVALID) else Inl e)
           | Inr t \<Rightarrow> Inr (create_response_handler t)))"

definition apology :: db_response where
  "apology = [py ''result'' \<mapsto> py ''I'm sorry, I couldn't find any results.'']"

text \<open>
  \<^verbatim>\<open>additional_info = content[3:] if len(content) > 3 else ""\<close>: what the
  classification says beyond its first three characters.
\<close>

definition additional_info :: "pystr \<Rightarrow> pystr" where
  "additional_info content = (if length content > 3 then drop 3 content else [])"

text \<open>
  Then the context. For a query handler the graph chain is called inside a
  \<^verbatim>\<open>try\<close> with \<^verbatim>\<open>except Exception\<close>; \<^verbatim>\<open>get_context\<close> is called after it, outside.
\<close>

definition resolve_context ::
  "cypher_chain \<Rightarrow> ResponseHandler \<Rightarrow> pystr \<Rightarrow> pystr \<Rightarrow> state \<Rightarrow> (py_error + pystr) \<times> state" where
  "resolve_context cypher response_handler content user_query st =
     (if handler_type response_handler = QUERY then
        (let question = additional_info content @ py '' '' @ user_query;
             n = length (db_calls st);
             st1 = st\<lparr>db_calls := db_calls st @ [question]\<rparr>
         in case cypher n question of
              Inl e \<Rightarrow>
                (if is_Exception e then (get_context response_handler [apology], st1)
                 else (Inl e, st1))
            | Inr db_response \<Rightarrow> (get_context response_handler [db_response], st1))
      else (get_context response_handler [], st))"

definition instruction :: pystr where
  "instruction =
     py ''Using the context, respond to following query (remember to incorporate any and all past feedback):''"

definition assistant_name :: "pystr \<Rightarrow> pystr" where
  "assistant_name model_name = py ''Assistant('' @ model_name @ py '')''"

text \<open>Last the answer: the second call of the model, and the printing of its content.\<close>

definition respond :: "llm \<Rightarrow> pystr \<Rightarrow> pystr \<Rightarrow> pystr \<Rightarrow> pystr \<Rightarrow> state \<Rightarrow> (py_error + unit) \<times> state" where
  "respond model model_name session_id context user_query st =
     (case invoke model session_id (context @ instruction @ user_query) st of
        (Inl e, st1) \<Rightarrow> (Inl e, st1)
      | (Inr content, st1) \<Rightarrow>
          (Inr (), st1\<lparr>console := console st1 @ [assistant_name model_name @ py '':'' @ content]\<rparr>))"

definition turn ::
  "llm \<Rightarrow> cypher_chain \<Rightarrow> pystr \<Rightarrow> pystr \<Rightarrow> pystr \<Rightarrow> state \<Rightarrow> (py_error + unit) \<times> state" where
  "turn model cypher model_name session_id user_query st =
     (case invoke model session_id (py ''Classify query:'' @ user_query) st of
        (Inl e, st1) \<Rightarrow> (Inl e, st1)
      | (Inr content, st1) \<Rightarrow>
          (case select_handler content of
             Inl e \<Rightarrow> (Inl e, st1)
           | Inr response_handler \<Rightarrow>
               (case resolve_context cypher response_handler content user_query st1 of
                  (Inl e, st2) \<Rightarrow> (Inl e, st2)
                | (Inr context, st2) \<Rightarrow>
                    respond model model_name session_id context user_query st2)))"

subsection \<open>cinemai.py: the loop and the shutdown\<close>

text \<open>
  The loop reads a line and runs a turn, for ever. The user's input is a parameter:
  the lines typed, after which Ctrl+C makes \<^verbatim>\<open>Prompt.ask\<close> raise KeyboardInterrupt.
  An exception of a turn ends the loop and is passed on.
\<close>

fun loop ::
  "llm \<Rightarrow> cypher_chain \<Rightarrow> pystr \<Rightarrow> pystr \<Rightarrow> pystr list \<Rightarrow> state \<Rightarrow> (py_error + unit) \<times> state" where
  "loop model cypher model_name session_id [] st = (Inl KeyboardInterrupt, st)"
| "loop model cypher model_name session_id (user_query # rest) st =
     (case turn model cypher model_name session_id user_query st of
        (Inl e, st1) \<Rightarrow> (Inl e, st1)
      | (Inr _, st1) \<Rightarrow> loop model cypher model_name session_id rest st1)"

text \<open>
  The dump on exit. \<^verbatim>\<open>open(name, "w")\<close> creates the file empty before the store is
  read; \<^verbatim>\<open>_SESSION_STORE[session_id]\<close> raises KeyError for a missing key. What the
  library serialisers write for a history (\<^verbatim>\<open>.json()\<close>, \<^verbatim>\<open>json.loads\<close>,
  \<^verbatim>\<open>json.dump\<close> with \<^verbatim>\<open>indent=2\<close>) is the parameter \<open>serialise\<close>.
\<close>

definition dump_memory :: "(message list \<Rightarrow> pystr) \<Rightarrow> pystr \<Rightarrow> state \<Rightarrow> (py_error + unit) \<times> state" where
  "dump_memory serialise session_id st =
     (let name = py ''memory-'' @ session_id @ py ''.json'';
          st1 = st\<lparr>files := (files st)(name \<mapsto> [])\<rparr>
      in case SESSION_STORE st1 session_id of
           None \<Rightarrow> (Inl KeyError, st1)
         | Some a \<Rightarrow> (Inr (), st1\<lparr>files := (files st1)(name \<mapsto> serialise (messages st1 a))\<rparr>))"

definition greeting :: "pystr \<Rightarrow> pystr" where
  "greeting model_name =
     assistant_name model_name
     @ py '': Hey! I'm your personal movie assistant, how can I help you? (to exit, press Ctrl+C)''"

definition feedback_hint :: pystr where
  "feedback_hint =
     py ''(feel free to give me feedback whenever the responses don't meet your expectations!)''"

definition outro :: pystr where
  "outro = py ''Leaving so soon? See ya next time!''"

text \<open>The state when the loop is entered: nothing stored, the greeting printed.\<close>

definition start_state :: "pystr \<Rightarrow> state" where
  "start_state model_name = initial_state\<lparr>console := [greeting model_name, feedback_hint]\<rparr>"

text \<open>
  \<^verbatim>\<open>main\<close> from the generation of the session id on. The construction of the graph,
  of the chains and of the prompt template before it is not modelled. The \<^verbatim>\<open>try\<close>
  around the loop has one handler, \<^verbatim>\<open>except KeyboardInterrupt\<close>; every other
  exception leaves \<^verbatim>\<open>main\<close>.
\<close>

definition main ::
  "(nat \<Rightarrow> real) \<Rightarrow> llm \<Rightarrow> cypher_chain \<Rightarrow> (message list \<Rightarrow> pystr) \<Rightarrow> pystr \<Rightarrow> bool \<Rightarrow> pystr list
     \<Rightarrow> (py_error + unit) \<times> state" where
  "main rnd model cypher serialise model_name dump_memory_on_exit typed =
     (let session_id = generate_session_id rnd 6
      in case loop model cypher model_name session_id typed (start_state model_name) of
           (Inl e, st1) \<Rightarrow>
             (if e = KeyboardInterrupt then
                (let st2 = st1\<lparr>console := console st1 @ [outro]\<rparr>
                 in if dump_memory_on_exit then dump_memory serialise session_id st2
                    else (Inr (), st2))
              else (Inl e, st1))
         | (Inr u, st1) \<Rightarrow> (Inr u, st1))"

subsection \<open>Example environments\<close>

text \<open>
  Services for the concrete runs below: a language model that answers every call with
  the same text, a graph chain that answers every question with the same result, and
  one that fails every call.
\<close>

definition constant_model :: "pystr \<Rightarrow> llm" where
  "constant_model answer n history question = Inr answer"

definition answering_chain :: "pystr \<Rightarrow> cypher_chain" where
  "answering_chain r n question = Inr [py ''result'' \<mapsto> r]"

definition failing_chain :: cypher_chain where
  "failing_chain n question = Inl (OtherException (py ''ServiceUnavailable''))"

text \<open>A graph chain during whose call the user presses Ctrl+C.\<close>

definition interrupted_chain :: cypher_chain where
  "interrupted_chain n question = Inl KeyboardInterrupt"

text \<open>A random generator with values in \<open>[0, 1)\<close>, for a concrete session id.\<close>

definition example_random :: "nat \<Rightarrow> real" where
  "example_random i = real (i mod 6) / 6 + 1 / 100"

section \<open>Properties\<close>

subsection \<open>Auxiliary facts\<close>

text \<open>The selection of the handler, by the first character.\<close>

lemma select_handler_Cons:
  "select_handler (c # rest) =
     (case ResponseTypes_call [c] of
        Inl e \<Rightarrow> (if e = ValueError then Inr InvalidResponseHandler else Inl e)
      | Inr t \<Rightarrow> Inr (create_response_handler t))"
  by (simp add: select_handler_def str_getitem_def create_response_handler_def split: sum.splits)

lemma ResponseTypes_call_char:
  "ResponseTypes_call [c] =
     (if c = 81 then Inr QUERY else if c = 77 then Inr MEMORY
      else if c = 70 then Inr FEEDBACK else if c = 73 then Inr INVALID
      else Inl ValueError)"
  by (simp add: ResponseTypes_call_def ResponseTypes_members_def py_def)

lemma select_handler_Q: "select_handler (py ''Q'' @ rest) = Inr QueryResponseHandler"
  by (simp add: py_def select_handler_Cons ResponseTypes_call_char create_response_handler_def)

lemma select_handler_M: "select_handler (py ''M'' @ rest) = Inr MemoryResponseHandler"
  by (simp add: py_def select_handler_Cons ResponseTypes_call_char create_response_handler_def)

text \<open>The context of each handler.\<close>

lemma additional_info_drop: "additional_info content = drop 3 content"
  by (simp add: additional_info_def)

lemma apology_context:
  "get_context QueryResponseHandler [apology]
     = Inr (py ''Context: database response was I'm sorry, I couldn't find any results.'')"
  by (simp add: QueryResponseHandler_get_context_def apology_def py_def)

lemma resolve_context_query:
  "resolve_context cypher QueryResponseHandler content user_query st =
     (case cypher (length (db_calls st)) (additional_info content @ py '' '' @ user_query) of
        Inl e \<Rightarrow>
          (if is_Exception e then get_context QueryResponseHandler [apology] else Inl e,
           st\<lparr>db_calls := db_calls st @ [additional_info content @ py '' '' @ user_query]\<rparr>)
      | Inr db_response \<Rightarrow>
          (get_context QueryResponseHandler [db_response],
           st\<lparr>db_calls := db_calls st @ [additional_info content @ py '' '' @ user_query]\<rparr>))"
  by (simp add: resolve_context_def Let_def split: sum.splits)

lemma db_calls_resolve_context_query:
  "db_calls (snd (resolve_context cypher QueryResponseHandler content user_query st))
     = db_calls st @ [additional_info content @ py '' '' @ user_query]"
  by (simp add: resolve_context_query split: sum.splits)

lemma resolve_context_constant:
  "resolve_context cypher MemoryResponseHandler content user_query st
     = (Inr (py ''Context: respond using memory history.''), st)"
  "resolve_context cypher FeedbackResponseHandler content user_query st
     = (Inr (py ''Context: user provided feedback.''), st)"
  "resolve_context cypher InvalidResponseHandler content user_query st
     = (Inr (py ''Context: user provided invalid query.''), st)"
  by (simp_all add: resolve_context_def MemoryResponseHandler_get_context_def
      FeedbackResponseHandler_get_context_def InvalidResponseHandler_get_context_def)

text \<open>A turn whose classification and context are known goes on to the answer.\<close>

lemma turn_after_classification:
  assumes "invoke model session_id (py ''Classify query:'' @ user_query) st = (Inr content, st1)"
    and "select_handler content = Inr h"
    and "resolve_context cypher h content user_query st1 = (Inr context, st2)"
  shows "turn model cypher model_name session_id user_query st
           = respond model model_name session_id context user_query st2"
  using assms by (simp add: turn_def)

lemma invoke_constant_model:
  "invoke (constant_model x) session_id question st
     = (Inr x, snd (invoke (constant_model x) session_id question st))"
  by (simp add: invoke_def constant_model_def Let_def split: prod.splits)

text \<open>Only the context of a query handler calls the graph chain.\<close>

lemma db_calls_get_session_history:
  "db_calls (snd (get_session_history session_id st)) = db_calls st"
  by (simp add: get_session_history_def ChatMessageHistory_def split: option.splits)

lemma db_calls_invoke: "db_calls (snd (invoke model session_id question st)) = db_calls st"
proof -
  obtain a st1 where g: "get_session_history session_id
      (st\<lparr>llm_calls := llm_calls st @ [(session_id, question)]\<rparr>) = (a, st1)"
    by (cases "get_session_history session_id
      (st\<lparr>llm_calls := llm_calls st @ [(session_id, question)]\<rparr>)")
  have "db_calls st1 = db_calls st"
    using db_calls_get_session_history
      [of session_id "st\<lparr>llm_calls := llm_calls st @ [(session_id, question)]\<rparr>"] g
    by simp
  then show ?thesis
    by (simp add: invoke_def Let_def g add_message_def split: sum.splits)
qed

lemma db_calls_respond:
  "db_calls (snd (respond model model_name session_id context user_query st)) = db_calls st"
proof -
  obtain r st1 where i: "invoke model session_id (context @ instruction @ user_query) st = (r, st1)"
    by (cases "invoke model session_id (context @ instruction @ user_query) st")
  have "db_calls st1 = db_calls st"
    using db_calls_invoke [of model session_id "context @ instruction @ user_query" st] i by simp
  then show ?thesis
    by (simp add: respond_def i split: sum.splits)
qed

lemma db_calls_turn:
  assumes i: "invoke model session_id (py ''Classify query:'' @ user_query) st = (Inr content, st1)"
    and h: "select_handler content = Inr h"
  shows "db_calls (snd (turn model cypher model_name session_id user_query st))
           = db_calls (snd (resolve_context cypher h content user_query st1))"
proof -
  obtain r st2 where c: "resolve_context cypher h content user_query st1 = (r, st2)"
    by (cases "resolve_context cypher h content user_query st1")
  show ?thesis
    by (cases r) (simp_all add: turn_def i h c db_calls_respond)
qed

text \<open>
  Every call of the language model is logged under its session id and creates the
  session in the store; making the context does neither.
\<close>

lemma llm_calls_get_session_history:
  "llm_calls (snd (get_session_history session_id st)) = llm_calls st"
  by (simp add: get_session_history_def ChatMessageHistory_def split: option.splits)

lemma store_get_session_history:
  "SESSION_STORE (snd (get_session_history session_id st)) session_id
     = Some (fst (get_session_history session_id st))"
  by (simp add: get_session_history_def ChatMessageHistory_def split: option.splits)

lemma invoke_effects:
  "llm_calls (snd (invoke model session_id question st)) = llm_calls st @ [(session_id, question)]
   \<and> SESSION_STORE (snd (invoke model session_id question st)) session_id \<noteq> None"
proof -
  let ?st0 = "st\<lparr>llm_calls := llm_calls st @ [(session_id, question)]\<rparr>"
  obtain a st1 where g: "get_session_history session_id ?st0 = (a, st1)"
    by (cases "get_session_history session_id ?st0")
  have l: "llm_calls st1 = llm_calls st @ [(session_id, question)]"
    using llm_calls_get_session_history [of session_id ?st0] g by simp
  have s: "SESSION_STORE st1 session_id = Some a"
    using store_get_session_history [of session_id ?st0] g by simp
  show ?thesis
    by (simp add: invoke_def Let_def g add_message_def l s split: sum.splits)
qed

lemma resolve_context_effects:
  "llm_calls (snd (resolve_context cypher h content user_query st)) = llm_calls st
   \<and> SESSION_STORE (snd (resolve_context cypher h content user_query st)) = SESSION_STORE st"
  by (simp add: resolve_context_def Let_def split: sum.splits)

lemma respond_effects:
  "llm_calls (snd (respond model model_name session_id context user_query st))
     = llm_calls st @ [(session_id, context @ instruction @ user_query)]
   \<and> SESSION_STORE (snd (respond model model_name session_id context user_query st)) session_id
       \<noteq> None"
proof -
  obtain r st1 where i: "invoke model session_id (context @ instruction @ user_query) st = (r, st1)"
    by (cases "invoke model session_id (context @ instruction @ user_query) st")
  show ?thesis
    using invoke_effects [of model session_id "context @ instruction @ user_query" st]
    by (cases r) (simp_all add: respond_def i)
qed

subsection \<open>The dispatch\<close>

text \<open>
  C1. A classification output that is not empty and whose first character is none of
  Q, M, F, I selects the invalid handler, whatever the character and the rest of
  the output are. Nothing is raised: the selection returns the handler, its context
  is the fixed invalid-query string, and the turn goes on to the final call of the
  language model with that context.
\<close>

theorem unrecognised_code_selects_invalid:
  assumes "c \<notin> set (py ''QMFI'')"
  shows "select_handler (c # rest) = Inr InvalidResponseHandler
    \<and> resolve_context cypher InvalidResponseHandler (c # rest) user_query st
        = (Inr (py ''Context: user provided invalid query.''), st)
    \<and> (invoke model session_id (py ''Classify query:'' @ user_query) st0 = (Inr (c # rest), st)
        \<longrightarrow> turn model cypher model_name session_id user_query st0
              = respond model model_name session_id
                  (py ''Context: user provided invalid query.'') user_query st)"
proof -
  from assms have "c \<noteq> 81" "c \<noteq> 77" "c \<noteq> 70" "c \<noteq> 73"
    by (auto simp: py_def)
  then have "ResponseTypes_call [c] = Inl ValueError"
    by (simp add: ResponseTypes_call_char)
  then have sel: "select_handler (c # rest) = Inr InvalidResponseHandler"
    by (simp add: select_handler_Cons)
  have ctx: "resolve_context cypher InvalidResponseHandler (c # rest) user_query st
        = (Inr (py ''Context: user provided invalid query.''), st)"
    by (simp add: resolve_context_def InvalidResponseHandler_get_context_def)
  from sel ctx show ?thesis
    by (simp add: turn_after_classification)
qed

text \<open>The output \<^verbatim>\<open>"Zebra"\<close> (its first character has code point 90).\<close>

theorem unrecognised_code_selects_invalid_witness:
  "select_handler (py ''Zebra'') = Inr InvalidResponseHandler
   \<and> resolve_context failing_chain InvalidResponseHandler (py ''Zebra'') (py ''hello'')
         (snd (invoke (constant_model (py ''Zebra'')) (py ''abc123'')
                 (py ''Classify query:'' @ py ''hello'') initial_state))
       = (Inr (py ''Context: user provided invalid query.''),
          snd (invoke (constant_model (py ''Zebra'')) (py ''abc123'')
                 (py ''Classify query:'' @ py ''hello'') initial_state))
   \<and> turn (constant_model (py ''Zebra'')) failing_chain (py ''gpt-4'') (py ''abc123'')
         (py ''hello'') initial_state
       = respond (constant_model (py ''Zebra'')) (py ''gpt-4'') (py ''abc123'')
           (py ''Context: user provided invalid query.'') (py ''hello'')
           (snd (invoke (constant_model (py ''Zebra'')) (py ''abc123'')
                   (py ''Classify query:'' @ py ''hello'') initial_state))"
proof -
  have h: "(90::nat) \<notin> set (py ''QMFI'')" by (simp add: py_def)
  have e: "py ''Zebra'' = 90 # py ''ebra''" by (simp add: py_def)
  note T = unrecognised_code_selects_invalid [where rest = "py ''ebra''" and cypher = failing_chain
      and user_query = "py ''hello''" and model = "constant_model (py ''Zebra'')"
      and session_id = "py ''abc123''" and ?st0.0 = initial_state and model_name = "py ''gpt-4''"
      and st = "snd (invoke (constant_model (py ''Zebra'')) (py ''abc123'')
                 (py ''Classify query:'' @ py ''hello'') initial_state)",
      OF h, folded e]
  show ?thesis
    using T invoke_constant_model [of "py ''Zebra''" "py ''abc123''"
        "py ''Classify query:'' @ py ''hello''" initial_state]
    by blast
qed

text \<open>
  C9. The memory, feedback and invalid handlers return their fixed string for every
  tuple of arguments: two calls with any arguments, of any types, give the same
  result, through the class's method and through the dispatched call alike.
\<close>

theorem constant_context_ignores_arguments:
  "MemoryResponseHandler_get_context (args :: 'a list)
     = MemoryResponseHandler_get_context (args' :: 'b list)
   \<and> FeedbackResponseHandler_get_context (args :: 'a list)
     = FeedbackResponseHandler_get_context (args' :: 'b list)
   \<and> InvalidResponseHandler_get_context (args :: 'a list)
     = InvalidResponseHandler_get_context (args' :: 'b list)
   \<and> get_context MemoryResponseHandler dargs = get_context MemoryResponseHandler dargs'
   \<and> get_context FeedbackResponseHandler dargs = get_context FeedbackResponseHandler dargs'
   \<and> get_context InvalidResponseHandler dargs = get_context InvalidResponseHandler dargs'"
  by (simp add: MemoryResponseHandler_get_context_def FeedbackResponseHandler_get_context_def
      InvalidResponseHandler_get_context_def)

text \<open>
  C4 (the code departs from it). For the empty classification output the selection
  does not fall back to the invalid handler: \<^verbatim>\<open>content[0]\<close> raises IndexError, the
  \<^verbatim>\<open>except ValueError\<close> clause does not catch it, and the exception leaves the turn
  and \<^verbatim>\<open>main\<close>. Shown for a language model that answers every call with the empty
  string.
\<close>

theorem empty_classification_raises:
  "select_handler [] = Inl IndexError
   \<and> fst (turn (constant_model []) cypher model_name session_id user_query st) = Inl IndexError
   \<and> fst (main rnd (constant_model []) cypher serialise model_name dump_memory_on_exit
            (user_query # typed)) = Inl IndexError"
proof -
  have s: "select_handler [] = Inl IndexError"
    by (simp add: select_handler_def str_getitem_def)
  have t: "fst (turn (constant_model []) cypher model_name session_id user_query st) = Inl IndexError"
    for session_id st
  proof -
    obtain st1 where "invoke (constant_model []) session_id (py ''Classify query:'' @ user_query) st
        = (Inr [], st1)"
      using invoke_constant_model [of "[]" session_id "py ''Classify query:'' @ user_query" st]
      by blast
    then show ?thesis by (simp add: turn_def s)
  qed
  have l: "fst (loop (constant_model []) cypher model_name session_id (user_query # typed) st)
             = Inl IndexError" for session_id st
    using t [of session_id st]
    by (cases "turn (constant_model []) cypher model_name session_id user_query st")
       (auto split: sum.splits)
  have m: "fst (main rnd (constant_model []) cypher serialise model_name dump_memory_on_exit
            (user_query # typed)) = Inl IndexError"
    using l [of "generate_session_id rnd 6" "start_state model_name"]
    by (cases "loop (constant_model []) cypher model_name (generate_session_id rnd 6)
                 (user_query # typed) (start_state model_name)")
       (auto simp: main_def Let_def split: sum.splits)
  from s t m show ?thesis by simp
qed

text \<open>
  C6. The output \<^verbatim>\<open>"M"\<close> selects the memory handler. The contexts of the memory, the
  feedback and the invalid handler are their fixed strings and leave the state as
  it is, so the graph chain is not called. A turn classified \<^verbatim>\<open>"M"\<close> goes on to the
  final call of the language model with the memory string as context, and makes no
  call of the graph chain at all.
\<close>

theorem memory_turn_calls_no_backend:
  "select_handler (py ''M'') = Inr MemoryResponseHandler
   \<and> resolve_context cypher MemoryResponseHandler content user_query st
       = (Inr (py ''Context: respond using memory history.''), st)
   \<and> resolve_context cypher FeedbackResponseHandler content user_query st
       = (Inr (py ''Context: user provided feedback.''), st)
   \<and> resolve_context cypher InvalidResponseHandler content user_query st
       = (Inr (py ''Context: user provided invalid query.''), st)
   \<and> (invoke model session_id (py ''Classify query:'' @ user_query) st0 = (Inr (py ''M''), st)
        \<longrightarrow> turn model cypher model_name session_id user_query st0
              = respond model model_name session_id (py ''Context: respond using memory history.'')
                  user_query st
          \<and> db_calls (snd (turn model cypher model_name session_id user_query st0)) = db_calls st0)"
proof -
  have m: "select_handler (py ''M'') = Inr MemoryResponseHandler"
    using select_handler_M [of "[]"] by simp
  have t: "invoke model session_id (py ''Classify query:'' @ user_query) st0 = (Inr (py ''M''), st)
        \<longrightarrow> turn model cypher model_name session_id user_query st0
              = respond model model_name session_id (py ''Context: respond using memory history.'')
                  user_query st
          \<and> db_calls (snd (turn model cypher model_name session_id user_query st0)) = db_calls st0"
  proof
    assume i: "invoke model session_id (py ''Classify query:'' @ user_query) st0
                 = (Inr (py ''M''), st)"
    have e: "db_calls st = db_calls st0"
      using db_calls_invoke [of model session_id "py ''Classify query:'' @ user_query" st0] i
      by simp
    have r: "turn model cypher model_name session_id user_query st0
              = respond model model_name session_id (py ''Context: respond using memory history.'')
                  user_query st"
      by (rule turn_after_classification [OF i m resolve_context_constant(1)])
    show "turn model cypher model_name session_id user_query st0
              = respond model model_name session_id (py ''Context: respond using memory history.'')
                  user_query st
          \<and> db_calls (snd (turn model cypher model_name session_id user_query st0)) = db_calls st0"
      by (simp add: r db_calls_respond e)
  qed
  show ?thesis
    using m t by (simp only: resolve_context_constant simp_thms)
qed

text \<open>A turn classified \<^verbatim>\<open>"M"\<close>, from the initial state.\<close>

theorem memory_turn_calls_no_backend_witness:
  "turn (constant_model (py ''M'')) (answering_chain (py ''1999'')) (py ''gpt-4'') (py ''abc123'')
       (py ''what did I ask before?'') initial_state
     = respond (constant_model (py ''M'')) (py ''gpt-4'') (py ''abc123'')
         (py ''Context: respond using memory history.'') (py ''what did I ask before?'')
         (snd (invoke (constant_model (py ''M'')) (py ''abc123'')
                 (py ''Classify query:'' @ py ''what did I ask before?'') initial_state))
   \<and> db_calls (snd (turn (constant_model (py ''M'')) (answering_chain (py ''1999'')) (py ''gpt-4'')
         (py ''abc123'') (py ''what did I ask before?'') initial_state))
     = db_calls initial_state"
  using memory_turn_calls_no_backend [where model = "constant_model (py ''M'')"
      and session_id = "py ''abc123''" and user_query = "py ''what did I ask before?''"
      and ?st0.0 = initial_state
      and st = "snd (invoke (constant_model (py ''M'')) (py ''abc123'')
                 (py ''Classify query:'' @ py ''what did I ask before?'') initial_state)"
      and cypher = "answering_chain (py ''1999'')" and model_name = "py ''gpt-4''"]
    invoke_constant_model [of "py ''M''" "py ''abc123''"
        "py ''Classify query:'' @ py ''what did I ask before?''" initial_state]
  by blast

subsection \<open>The query intent\<close>

text \<open>
  C2 as stated fails for an exception that is no \<^verbatim>\<open>Exception\<close>: when Ctrl+C arrives
  during the call of the graph chain, the KeyboardInterrupt is not caught by
  \<^verbatim>\<open>except Exception\<close>. No context is made, the exception leaves the turn, and the
  only call of the language model is the classification.
\<close>

theorem backend_interrupt_counterexample:
  "select_handler (py ''Q  The Matrix'') = Inr QueryResponseHandler
   \<and> fst (resolve_context interrupted_chain QueryResponseHandler (py ''Q  The Matrix'')
            (py ''who made it?'') initial_state) = Inl KeyboardInterrupt
   \<and> fst (turn (constant_model (py ''Q  The Matrix'')) interrupted_chain (py ''gpt-4'')
            (py ''abc123'') (py ''who made it?'') initial_state) = Inl KeyboardInterrupt
   \<and> llm_calls (snd (turn (constant_model (py ''Q  The Matrix'')) interrupted_chain (py ''gpt-4'')
            (py ''abc123'') (py ''who made it?'') initial_state))
       = [(py ''abc123'', py ''Classify query:'' @ py ''who made it?'')]"
  by (simp add: turn_def invoke_def constant_model_def interrupted_chain_def Let_def
    get_session_history_def ChatMessageHistory_def messages_def add_message_def initial_state_def
    select_handler_def str_getitem_def ResponseTypes_call_def ResponseTypes_members_def
    create_response_handler_def resolve_context_def additional_info_def py_def
    split: prod.splits)

text \<open>
  C2, amended. In a turn classified as a query (first character Q), when the call of
  the graph chain raises an exception of the class \<^verbatim>\<open>Exception\<close> (what
  \<^verbatim>\<open>except Exception\<close> catches), the context is the database-response template filled
  with the fixed apology, whatever the exception was, and making it raises nothing.
  The turn goes on to the final call of the language model: after the classification
  it makes exactly one more call, with that context, the instruction and the user's
  query, and the turn raises only what this call raises.
\<close>

theorem backend_failure_gives_apology:
  assumes "cypher (length (db_calls st)) (additional_info (py ''Q'' @ rest) @ py '' '' @ user_query)
             = Inl e"
    and "is_Exception e"
  shows "select_handler (py ''Q'' @ rest) = Inr QueryResponseHandler
    \<and> resolve_context cypher QueryResponseHandler (py ''Q'' @ rest) user_query st
        = (Inr (py ''Context: database response was I'm sorry, I couldn't find any results.''),
           st\<lparr>db_calls := db_calls st
                  @ [additional_info (py ''Q'' @ rest) @ py '' '' @ user_query]\<rparr>)
    \<and> (invoke model session_id (py ''Classify query:'' @ user_query) st0 = (Inr (py ''Q'' @ rest), st)
        \<longrightarrow> turn model cypher model_name session_id user_query st0
              = respond model model_name session_id
                  (py ''Context: database response was I'm sorry, I couldn't find any results.'')
                  user_query
                  (st\<lparr>db_calls := db_calls st
                         @ [additional_info (py ''Q'' @ rest) @ py '' '' @ user_query]\<rparr>)
          \<and> llm_calls (snd (turn model cypher model_name session_id user_query st0))
              = llm_calls st0
                  @ [(session_id, py ''Classify query:'' @ user_query),
                     (session_id,
                      py ''Context: database response was I'm sorry, I couldn't find any results.''
                        @ instruction @ user_query)]
          \<and> fst (turn model cypher model_name session_id user_query st0)
              = (case fst (invoke model session_id
                       (py ''Context: database response was I'm sorry, I couldn't find any results.''
                          @ instruction @ user_query)
                       (st\<lparr>db_calls := db_calls st
                              @ [additional_info (py ''Q'' @ rest) @ py '' '' @ user_query]\<rparr>)) of
                   Inl e' \<Rightarrow> Inl e'
                 | Inr answer \<Rightarrow> Inr ()))"
proof -
  let ?ctx = "py ''Context: database response was I'm sorry, I couldn't find any results.''"
  let ?st' = "st\<lparr>db_calls := db_calls st
                  @ [additional_info (py ''Q'' @ rest) @ py '' '' @ user_query]\<rparr>"
  have ctx: "resolve_context cypher QueryResponseHandler (py ''Q'' @ rest) user_query st
        = (Inr ?ctx, ?st')"
    by (simp only: resolve_context_query assms sum.case if_True apology_context)
  have after: "turn model cypher model_name session_id user_query st0
              = respond model model_name session_id ?ctx user_query ?st'
          \<and> llm_calls (snd (turn model cypher model_name session_id user_query st0))
              = llm_calls st0
                  @ [(session_id, py ''Classify query:'' @ user_query),
                     (session_id, ?ctx @ instruction @ user_query)]
          \<and> fst (turn model cypher model_name session_id user_query st0)
              = (case fst (invoke model session_id (?ctx @ instruction @ user_query) ?st') of
                   Inl e' \<Rightarrow> Inl e'
                 | Inr answer \<Rightarrow> Inr ())"
    if i: "invoke model session_id (py ''Classify query:'' @ user_query) st0
             = (Inr (py ''Q'' @ rest), st)"
  proof -
    have t: "turn model cypher model_name session_id user_query st0
              = respond model model_name session_id ?ctx user_query ?st'"
      by (rule turn_after_classification [OF i select_handler_Q ctx])
    have l0: "llm_calls st = llm_calls st0 @ [(session_id, py ''Classify query:'' @ user_query)]"
      using invoke_effects [of model session_id "py ''Classify query:'' @ user_query" st0] i
      by simp
    have l: "llm_calls (snd (respond model model_name session_id ?ctx user_query ?st'))
               = llm_calls st0
                  @ [(session_id, py ''Classify query:'' @ user_query),
                     (session_id, ?ctx @ instruction @ user_query)]"
      using respond_effects [of model model_name session_id ?ctx user_query ?st'] l0
      by simp
    have r: "fst (respond model model_name session_id ?ctx user_query ?st')
              = (case fst (invoke model session_id (?ctx @ instruction @ user_query) ?st') of
                   Inl e' \<Rightarrow> Inl e'
                 | Inr answer \<Rightarrow> Inr ())"
      by (cases "invoke model session_id (?ctx @ instruction @ user_query) ?st'")
         (simp add: respond_def split: sum.splits)
    show ?thesis
      unfolding t using l r by simp
  qed
  show ?thesis
    using ctx select_handler_Q [of rest] after by blast
qed

text \<open>The classification \<^verbatim>\<open>"Q  The Matrix"\<close> with a graph chain that fails every call.\<close>

theorem backend_failure_gives_apology_witness:
  "select_handler (py ''Q'' @ py ''  The Matrix'') = Inr QueryResponseHandler
   \<and> resolve_context failing_chain QueryResponseHandler (py ''Q'' @ py ''  The Matrix'')
         (py ''who made it?'')
         (snd (invoke (constant_model (py ''Q'' @ py ''  The Matrix'')) (py ''abc123'')
                 (py ''Classify query:'' @ py ''who made it?'') initial_state))
       = (Inr (py ''Context: database response was I'm sorry, I couldn't find any results.''),
          snd (invoke (constant_model (py ''Q'' @ py ''  The Matrix'')) (py ''abc123'')
                 (py ''Classify query:'' @ py ''who made it?'') initial_state)
            \<lparr>db_calls := db_calls (snd (invoke (constant_model (py ''Q'' @ py ''  The Matrix''))
                   (py ''abc123'') (py ''Classify query:'' @ py ''who made it?'') initial_state))
               @ [additional_info (py ''Q'' @ py ''  The Matrix'') @ py '' '' @ py ''who made it?'']\<rparr>)
   \<and> turn (constant_model (py ''Q'' @ py ''  The Matrix'')) failing_chain (py ''gpt-4'')
         (py ''abc123'') (py ''who made it?'') initial_state
       = respond (constant_model (py ''Q'' @ py ''  The Matrix'')) (py ''gpt-4'') (py ''abc123'')
           (py ''Context: database response was I'm sorry, I couldn't find any results.'')
           (py ''who made it?'')
           (snd (invoke (constant_model (py ''Q'' @ py ''  The Matrix'')) (py ''abc123'')
                 (py ''Classify query:'' @ py ''who made it?'') initial_state)
             \<lparr>db_calls := db_calls (snd (invoke (constant_model (py ''Q'' @ py ''  The Matrix''))
                   (py ''abc123'') (py ''Classify query:'' @ py ''who made it?'') initial_state))
               @ [additional_info (py ''Q'' @ py ''  The Matrix'') @ py '' '' @ py ''who made it?'']\<rparr>)
   \<and> llm_calls (snd (turn (constant_model (py ''Q'' @ py ''  The Matrix'')) failing_chain
         (py ''gpt-4'') (py ''abc123'') (py ''who made it?'') initial_state))
       = llm_calls initial_state
           @ [(py ''abc123'', py ''Classify query:'' @ py ''who made it?''),
              (py ''abc123'',
               py ''Context: database response was I'm sorry, I couldn't find any results.''
                 @ instruction @ py ''who made it?'')]
   \<and> fst (turn (constant_model (py ''Q'' @ py ''  The Matrix'')) failing_chain (py ''gpt-4'')
         (py ''abc123'') (py ''who made it?'') initial_state) = Inr ()"
proof -
  let ?m = "constant_model (py ''Q'' @ py ''  The Matrix'')"
  let ?ctx = "py ''Context: database response was I'm sorry, I couldn't find any results.''"
  let ?st = "snd (invoke ?m (py ''abc123'') (py ''Classify query:'' @ py ''who made it?'')
                 initial_state)"
  let ?st' = "?st\<lparr>db_calls := db_calls ?st
               @ [additional_info (py ''Q'' @ py ''  The Matrix'') @ py '' '' @ py ''who made it?'']\<rparr>"
  have h1: "failing_chain (length (db_calls ?st))
      (additional_info (py ''Q'' @ py ''  The Matrix'') @ py '' '' @ py ''who made it?'')
      = Inl (OtherException (py ''ServiceUnavailable''))"
    by (simp add: failing_chain_def)
  have h2: "is_Exception (OtherException (py ''ServiceUnavailable''))" by simp
  note T = backend_failure_gives_apology [where cypher = failing_chain and st = ?st
      and rest = "py ''  The Matrix''" and user_query = "py ''who made it?''"
      and e = "OtherException (py ''ServiceUnavailable'')"
      and model = ?m
      and session_id = "py ''abc123''" and ?st0.0 = initial_state and model_name = "py ''gpt-4''",
      OF h1 h2]
  note A = mp [OF conjunct2 [OF conjunct2 [OF T]] invoke_constant_model]
  have f: "fst (invoke ?m (py ''abc123'') (?ctx @ instruction @ py ''who made it?'') ?st')
             = Inr (py ''Q'' @ py ''  The Matrix'')"
    using invoke_constant_model [of "py ''Q'' @ py ''  The Matrix''" "py ''abc123''"
        "?ctx @ instruction @ py ''who made it?''" ?st']
    by (metis fst_conv)
  have r: "fst (turn ?m failing_chain (py ''gpt-4'') (py ''abc123'') (py ''who made it?'')
             initial_state) = Inr ()"
    using conjunct2 [OF conjunct2 [OF A]] by (simp only: f sum.case)
  show ?thesis
    by (rule conjI [OF conjunct1 [OF T] conjI [OF conjunct1 [OF conjunct2 [OF T]]
          conjI [OF conjunct1 [OF A] conjI [OF conjunct1 [OF conjunct2 [OF A]] r]]]])
qed

text \<open>
  A Ctrl+C during the call of the graph chain is no \<^verbatim>\<open>Exception\<close>: it is not replaced
  by the apology but passed on, to the shutdown of \<^verbatim>\<open>main\<close>.
\<close>

lemma backend_interrupt_is_passed_on:
  assumes "cypher (length (db_calls st)) (additional_info content @ py '' '' @ user_query)
             = Inl KeyboardInterrupt"
  shows "fst (resolve_context cypher QueryResponseHandler content user_query st)
           = Inl KeyboardInterrupt"
  using assms by (simp add: resolve_context_query)

text \<open>
  C3 as stated fails: for the classification \<^verbatim>\<open>"Q  The Matrix"\<close> the graph chain is
  asked \<^verbatim>\<open>"The Matrix "\<close> followed by the query, with no space in front, since the
  slice \<^verbatim>\<open>content[3:]\<close> starts at the character of index 3, the \<^verbatim>\<open>T\<close>.
\<close>

theorem matrix_question_counterexample:
  "db_calls (snd (turn (constant_model (py ''Q  The Matrix'')) (answering_chain (py ''1999''))
       (py ''gpt-4'') (py ''abc123'') (py ''when was it made?'') initial_state))
     = [py ''The Matrix when was it made?'']
   \<and> db_calls (snd (turn (constant_model (py ''Q  The Matrix'')) (answering_chain (py ''1999''))
       (py ''gpt-4'') (py ''abc123'') (py ''when was it made?'') initial_state))
     \<noteq> [py '' The Matrix '' @ py ''when was it made?'']"
  by (simp add: turn_def invoke_def constant_model_def answering_chain_def Let_def
    get_session_history_def ChatMessageHistory_def messages_def add_message_def initial_state_def
    select_handler_def str_getitem_def ResponseTypes_call_def ResponseTypes_members_def
    create_response_handler_def resolve_context_def QueryResponseHandler_get_context_def
    additional_info_def respond_def py_def split: prod.splits)

text \<open>
  C3, amended. In a turn classified as a query, the question sent to the graph chain is
  the additional text, a single space and the user's query. The additional text is
  the classification output from the character of index 3 on (without its first three
  characters), empty exactly when the output has at most three characters. For
  \<^verbatim>\<open>"Q  The Matrix"\<close> the question is \<^verbatim>\<open>"The Matrix "\<close> followed by the query. When the
  graph chain answers with a dict that has a \<^verbatim>\<open>'result'\<close>, the context is the
  database-response template followed by that result.
\<close>

theorem query_question_is_info_space_query:
  "select_handler (py ''Q'' @ rest) = Inr QueryResponseHandler
   \<and> additional_info content = drop 3 content
   \<and> (additional_info content = []) = (length content \<le> 3)
   \<and> db_calls (snd (resolve_context cypher QueryResponseHandler content user_query st))
       = db_calls st @ [additional_info content @ py '' '' @ user_query]
   \<and> additional_info (py ''Q  The Matrix'') @ py '' '' @ user_query = py ''The Matrix '' @ user_query
   \<and> (cypher (length (db_calls st)) (additional_info content @ py '' '' @ user_query) = Inr resp
        \<and> resp (py ''result'') = Some r
        \<longrightarrow> fst (resolve_context cypher QueryResponseHandler content user_query st)
              = Inr (py ''Context: database response was '' @ r))
   \<and> (invoke model session_id (py ''Classify query:'' @ user_query) st0 = (Inr (py ''Q'' @ rest), st)
        \<longrightarrow> db_calls (snd (turn model cypher model_name session_id user_query st0))
              = db_calls st0 @ [additional_info (py ''Q'' @ rest) @ py '' '' @ user_query])"
proof -
  have a: "additional_info (py ''Q  The Matrix'') @ py '' '' @ user_query
             = py ''The Matrix '' @ user_query"
    by (simp add: additional_info_def py_def)
  have b: "(additional_info content = []) = (length content \<le> 3)"
    by (simp add: additional_info_def)
  have c: "cypher (length (db_calls st)) (additional_info content @ py '' '' @ user_query) = Inr resp
        \<and> resp (py ''result'') = Some r
        \<longrightarrow> fst (resolve_context cypher QueryResponseHandler content user_query st)
              = Inr (py ''Context: database response was '' @ r)"
    by (simp add: resolve_context_query QueryResponseHandler_get_context_def)
  have d: "invoke model session_id (py ''Classify query:'' @ user_query) st0 = (Inr (py ''Q'' @ rest), st)
        \<longrightarrow> db_calls (snd (turn model cypher model_name session_id user_query st0))
              = db_calls st0 @ [additional_info (py ''Q'' @ rest) @ py '' '' @ user_query]"
  proof
    assume i: "invoke model session_id (py ''Classify query:'' @ user_query) st0
                 = (Inr (py ''Q'' @ rest), st)"
    have "db_calls st = db_calls st0"
      using db_calls_invoke [of model session_id "py ''Classify query:'' @ user_query" st0] i
      by simp
    then show "db_calls (snd (turn model cypher model_name session_id user_query st0))
              = db_calls st0 @ [additional_info (py ''Q'' @ rest) @ py '' '' @ user_query]"
      by (simp add: db_calls_turn [OF i select_handler_Q] db_calls_resolve_context_query)
  qed
  show ?thesis
    using a b c d
    by (simp only: select_handler_Q additional_info_drop db_calls_resolve_context_query
        simp_thms)
qed

text \<open>The classification \<^verbatim>\<open>"Q  The Matrix"\<close> with a graph chain that answers \<^verbatim>\<open>"1999"\<close>.\<close>

theorem query_question_is_info_space_query_witness:
  "fst (resolve_context (answering_chain (py ''1999'')) QueryResponseHandler (py ''Q  The Matrix'')
          (py ''when was it made?'') initial_state)
     = Inr (py ''Context: database response was '' @ py ''1999'')
   \<and> db_calls (snd (turn (constant_model (py ''Q'' @ py ''  The Matrix''))
          (answering_chain (py ''1999'')) (py ''gpt-4'') (py ''abc123'') (py ''when was it made?'')
          initial_state))
     = db_calls initial_state
         @ [additional_info (py ''Q'' @ py ''  The Matrix'') @ py '' '' @ py ''when was it made?'']"
proof -
  let ?st = "snd (invoke (constant_model (py ''Q'' @ py ''  The Matrix'')) (py ''abc123'')
                 (py ''Classify query:'' @ py ''when was it made?'') initial_state)"
  note T = query_question_is_info_space_query [where cypher = "answering_chain (py ''1999'')"
      and content = "py ''Q  The Matrix''" and user_query = "py ''when was it made?''"
      and resp = "[py ''result'' \<mapsto> py ''1999'']" and r = "py ''1999''"
      and model = "constant_model (py ''Q'' @ py ''  The Matrix'')"
      and rest = "py ''  The Matrix''"
      and session_id = "py ''abc123''" and ?st0.0 = initial_state and model_name = "py ''gpt-4''"]
  have h: "answering_chain (py ''1999'') (length (db_calls initial_state))
        (additional_info (py ''Q  The Matrix'') @ py '' '' @ py ''when was it made?'')
        = Inr [py ''result'' \<mapsto> py ''1999'']
      \<and> [py ''result'' \<mapsto> py ''1999''] (py ''result'') = Some (py ''1999'')"
    by (simp add: answering_chain_def)
  have c: "fst (resolve_context (answering_chain (py ''1999'')) QueryResponseHandler
        (py ''Q  The Matrix'') (py ''when was it made?'') initial_state)
     = Inr (py ''Context: database response was '' @ py ''1999'')"
    using T [where st = initial_state] h by blast
  have d: "db_calls (snd (turn (constant_model (py ''Q'' @ py ''  The Matrix''))
          (answering_chain (py ''1999'')) (py ''gpt-4'') (py ''abc123'') (py ''when was it made?'')
          initial_state))
     = db_calls initial_state
         @ [additional_info (py ''Q'' @ py ''  The Matrix'') @ py '' '' @ py ''when was it made?'']"
    using T [where st = ?st] invoke_constant_model
      [of "py ''Q'' @ py ''  The Matrix''" "py ''abc123''"
        "py ''Classify query:'' @ py ''when was it made?''" initial_state]
    by blast
  show ?thesis using c d by (rule conjI)
qed

subsection \<open>The session store\<close>

text \<open>The two cases of the lookup, and appends to a session that exists.\<close>

lemma get_session_history_new:
  assumes "SESSION_STORE st session_id = None"
  shows "get_session_history session_id st
           = (length (heap st),
              st\<lparr>heap := heap st @ [[]],
                 SESSION_STORE := (SESSION_STORE st)(session_id \<mapsto> length (heap st))\<rparr>)"
  using assms by (simp add: get_session_history_def ChatMessageHistory_def)

lemma get_session_history_old:
  assumes "SESSION_STORE st session_id = Some a"
  shows "get_session_history session_id st = (a, st)"
  using assms by (simp add: get_session_history_def)

lemma append_turns_old:
  assumes "SESSION_STORE st session_id = Some a" and "a < length (heap st)"
  shows "append_turns session_id ms st = st\<lparr>heap := (heap st)[a := heap st ! a @ ms]\<rparr>"
  using assms
proof (induction ms arbitrary: st)
  case Nil
  then show ?case by simp
next
  case (Cons m ms)
  let ?st = "add_message a m st"
  have s: "SESSION_STORE ?st session_id = Some a" and l: "a < length (heap ?st)"
    using Cons.prems by (simp_all add: add_message_def)
  have "append_turns session_id (m # ms) st = append_turns session_id ms ?st"
    using Cons.prems by (simp add: get_session_history_old)
  also have "\<dots> = ?st\<lparr>heap := (heap ?st)[a := heap ?st ! a @ ms]\<rparr>"
    by (rule Cons.IH [OF s l])
  also have "\<dots> = st\<lparr>heap := (heap st)[a := heap st ! a @ (m # ms)]\<rparr>"
    using Cons.prems by (simp add: add_message_def)
  finally show ?case .
qed

text \<open>
  The store only holds addresses of allocated objects, from the initial state on
  and through every operation of a run.
\<close>

lemma store_ok_initial: "store_ok initial_state"
  by (simp add: store_ok_def initial_state_def)

lemma store_ok_get_session_history:
  assumes "store_ok st"
  shows "store_ok (snd (get_session_history session_id st))
    \<and> fst (get_session_history session_id st) < length (heap (snd (get_session_history session_id st)))"
proof (cases "SESSION_STORE st session_id")
  case None
  have "ran ((SESSION_STORE st)(session_id \<mapsto> length (heap st)))
          = insert (length (heap st)) (ran (SESSION_STORE st))"
    using None by simp
  then show ?thesis
    using assms None
    by (auto simp: store_ok_def get_session_history_def ChatMessageHistory_def)
next
  case (Some a)
  then have "a \<in> ran (SESSION_STORE st)"
    by (auto simp: ran_def)
  then show ?thesis
    using assms Some by (simp add: store_ok_def get_session_history_def)
qed

lemma store_ok_add_message: "store_ok st \<Longrightarrow> store_ok (add_message a m st)"
  by (simp add: store_ok_def add_message_def)

lemma store_ok_invoke:
  assumes "store_ok st"
  shows "store_ok (snd (invoke model session_id question st))"
proof -
  let ?st0 = "st\<lparr>llm_calls := llm_calls st @ [(session_id, question)]\<rparr>"
  obtain a st1 where g: "get_session_history session_id ?st0 = (a, st1)"
    by (cases "get_session_history session_id ?st0")
  have "store_ok ?st0"
    using assms by (simp add: store_ok_def)
  then have "store_ok st1"
    using store_ok_get_session_history [of ?st0 session_id] g by simp
  then show ?thesis
    by (simp add: invoke_def Let_def g store_ok_add_message split: sum.splits)
qed

lemma store_ok_resolve_context:
  "store_ok st \<Longrightarrow> store_ok (snd (resolve_context cypher h content user_query st))"
  by (simp add: resolve_context_def Let_def store_ok_def split: sum.splits)

lemma store_ok_respond:
  assumes "store_ok st"
  shows "store_ok (snd (respond model model_name session_id c user_query st))"
proof -
  obtain r st1 where i: "invoke model session_id (c @ instruction @ user_query) st = (r, st1)"
    by (cases "invoke model session_id (c @ instruction @ user_query) st")
  have "store_ok st1"
    using store_ok_invoke [OF assms, of model session_id "c @ instruction @ user_query"] i by simp
  then show ?thesis
    by (cases r) (simp_all add: respond_def i store_ok_def)
qed

lemma store_ok_turn:
  assumes "store_ok st"
  shows "store_ok (snd (turn model cypher model_name session_id user_query st))"
proof -
  obtain r st1 where i: "invoke model session_id (py ''Classify query:'' @ user_query) st = (r, st1)"
    by (cases "invoke model session_id (py ''Classify query:'' @ user_query) st")
  have s1: "store_ok st1"
    using store_ok_invoke [OF assms, of model session_id "py ''Classify query:'' @ user_query"] i
    by simp
  show ?thesis
  proof (cases r)
    case (Inl e)
    then show ?thesis using s1 by (simp add: turn_def i)
  next
    case (Inr content)
    show ?thesis
    proof (cases "select_handler content")
      case (Inl e)
      then show ?thesis using s1 by (simp add: turn_def i Inr)
    next
      case sel: (Inr h)
      obtain c st2 where r: "resolve_context cypher h content user_query st1 = (c, st2)"
        by (cases "resolve_context cypher h content user_query st1")
      have s2: "store_ok st2"
        using store_ok_resolve_context [OF s1, of cypher h content user_query] r by simp
      show ?thesis
        using s2 store_ok_respond [OF s2]
        by (cases c) (simp_all add: turn_def i Inr sel r)
    qed
  qed
qed

lemma store_ok_loop:
  "store_ok st \<Longrightarrow> store_ok (snd (loop model cypher model_name session_id typed st))"
proof (induction typed arbitrary: st)
  case Nil
  then show ?case by simp
next
  case (Cons user_query rest)
  obtain r st1 where t: "turn model cypher model_name session_id user_query st = (r, st1)"
    by (cases "turn model cypher model_name session_id user_query st")
  have s1: "store_ok st1"
    using store_ok_turn [OF Cons.prems, of model cypher model_name session_id user_query] t
    by simp
  show ?case
    using s1 Cons.IH [OF s1] by (cases r) (simp_all add: t)
qed

text \<open>
  C5. The first lookup of a session id creates a new object with no messages, at a
  fresh address. Every later lookup of the id returns the same address and leaves
  the state as it is. After any number of appends, each through a lookup of its
  own, a lookup still returns that address, the object holds exactly the appended
  messages in the order of the appends, and no other object was created.
\<close>

theorem session_store_get_or_create:
  assumes "SESSION_STORE st session_id = None"
  shows "(let (a, st1) = get_session_history session_id st;
              st2 = append_turns session_id ms st1
          in a = length (heap st)
           \<and> messages st1 a = []
           \<and> get_session_history session_id st1 = (a, st1)
           \<and> get_session_history session_id st2 = (a, st2)
           \<and> messages st2 a = ms
           \<and> length (heap st2) = length (heap st1)
           \<and> SESSION_STORE st2 = SESSION_STORE st1)"
proof -
  let ?a = "length (heap st)"
  let ?st1 = "st\<lparr>heap := heap st @ [[]],
                 SESSION_STORE := (SESSION_STORE st)(session_id \<mapsto> length (heap st))\<rparr>"
  have g: "get_session_history session_id st = (?a, ?st1)"
    by (rule get_session_history_new [OF assms])
  have s: "SESSION_STORE ?st1 session_id = Some ?a" and l: "?a < length (heap ?st1)"
    by simp_all
  have a: "append_turns session_id ms ?st1 = ?st1\<lparr>heap := (heap ?st1)[?a := heap ?st1 ! ?a @ ms]\<rparr>"
    by (rule append_turns_old [OF s l])
  have m1: "messages ?st1 ?a = []"
    by (simp add: messages_def)
  have g1: "get_session_history session_id ?st1 = (?a, ?st1)"
    by (rule get_session_history_old [OF s])
  have g2: "get_session_history session_id (append_turns session_id ms ?st1)
              = (?a, append_turns session_id ms ?st1)"
    by (rule get_session_history_old) (simp add: a)
  have m2: "messages (append_turns session_id ms ?st1) ?a = ms"
    by (simp add: a messages_def)
  have h2: "length (heap (append_turns session_id ms ?st1)) = length (heap ?st1)"
    by (simp add: a)
  have s2: "SESSION_STORE (append_turns session_id ms ?st1) = SESSION_STORE ?st1"
    by (simp add: a)
  show ?thesis
    unfolding g Let_def prod.case
    using m1 g1 g2 m2 h2 s2 by (intro conjI) simp_all
qed

text \<open>Three appends to the session \<^verbatim>\<open>"abc123"\<close>, from the initial state.\<close>

theorem session_store_get_or_create_witness:
  "(let (a, st1) = get_session_history (py ''abc123'') initial_state;
        st2 = append_turns (py ''abc123'') [(Human, py ''hi''), (AI, py ''hello''), (Human, py ''bye'')] st1
    in a = length (heap initial_state)
     \<and> messages st1 a = []
     \<and> get_session_history (py ''abc123'') st1 = (a, st1)
     \<and> get_session_history (py ''abc123'') st2 = (a, st2)
     \<and> messages st2 a = [(Human, py ''hi''), (AI, py ''hello''), (Human, py ''bye'')]
     \<and> length (heap st2) = length (heap st1)
     \<and> SESSION_STORE st2 = SESSION_STORE st1)"
proof -
  have h: "SESSION_STORE initial_state (py ''abc123'') = None"
    by (simp add: initial_state_def)
  show ?thesis
    by (rule session_store_get_or_create [OF h])
qed

subsection \<open>The session id\<close>

text \<open>Each draw is an index into the alphabet, which has 62 characters.\<close>

lemma random_index_in_range:
  assumes "0 \<le> r" and "r < 1" and "0 < n"
  shows "nat \<lfloor>r * real n\<rfloor> < n"
proof -
  have "r * real n < real n"
    using assms by simp
  then have "\<lfloor>r * real n\<rfloor> < int n"
    by (simp add: floor_less_iff)
  moreover have "0 \<le> \<lfloor>r * real n\<rfloor>"
    using assms by simp
  ultimately show ?thesis by linarith
qed

lemma length_alphabet: "length (ascii_letters @ digits) = 62"
  by (simp add: ascii_letters_def ascii_lowercase_def ascii_uppercase_def digits_def py_def)

lemma alphabet_alphanumeric: "list_all ascii_alphanumeric (ascii_letters @ digits)"
  by (simp add: ascii_letters_def ascii_lowercase_def ascii_uppercase_def digits_def py_def
      ascii_alphanumeric_def)

lemma join_random_choices_chars:
  assumes "\<forall>i. 0 \<le> rnd i \<and> rnd i < 1" and "xs \<noteq> []"
  shows "join_empty (random_choices rnd (chars xs) k)
           = map (\<lambda>i. xs ! nat \<lfloor>rnd i * real (length xs)\<rfloor>) [0..<k]"
proof -
  have r: "nat \<lfloor>rnd i * real (length xs)\<rfloor> < length xs" for i
    using random_index_in_range [of "rnd i" "length xs"] assms by simp
  have "random_choices rnd (chars xs) k
          = map (\<lambda>i. [xs ! nat \<lfloor>rnd i * real (length xs)\<rfloor>]) [0..<k]"
    unfolding random_choices_def chars_def using r by simp
  then show ?thesis
    by (simp add: join_empty_def concat_map_singleton)
qed

lemma generate_session_id_map:
  assumes "\<forall>i. 0 \<le> rnd i \<and> rnd i < 1"
  shows "generate_session_id rnd len
           = map (\<lambda>i. (ascii_letters @ digits) ! nat \<lfloor>rnd i * 62\<rfloor>) [0..<len]"
proof -
  have n: "ascii_letters @ digits \<noteq> []"
    using length_alphabet by fastforce
  show ?thesis
    unfolding generate_session_id_def join_random_choices_chars [OF assms n] length_alphabet
    by simp
qed

text \<open>
  What a run does to the log of the calls of the language model and to the store:
  every call is logged under the session id of the run, and creates the session.
\<close>

lemma turn_effects:
  "set (map fst (llm_calls (snd (turn model cypher model_name session_id user_query st))))
     = insert session_id (set (map fst (llm_calls st)))
   \<and> llm_calls (snd (turn model cypher model_name session_id user_query st)) \<noteq> []
   \<and> SESSION_STORE (snd (turn model cypher model_name session_id user_query st)) session_id \<noteq> None"
proof -
  obtain r st1 where i: "invoke model session_id (py ''Classify query:'' @ user_query) st = (r, st1)"
    by (cases "invoke model session_id (py ''Classify query:'' @ user_query) st")
  have i1: "llm_calls st1 = llm_calls st @ [(session_id, py ''Classify query:'' @ user_query)]"
    and i2: "SESSION_STORE st1 session_id \<noteq> None"
    using invoke_effects [of model session_id "py ''Classify query:'' @ user_query" st] i
    by simp_all
  show ?thesis
  proof (cases r)
    case (Inl e)
    then show ?thesis by (simp add: turn_def i i1 i2)
  next
    case (Inr content)
    show ?thesis
    proof (cases "select_handler content")
      case (Inl e)
      then show ?thesis by (simp add: turn_def i Inr i1 i2)
    next
      case h: (Inr h)
      obtain c st2 where r: "resolve_context cypher h content user_query st1 = (c, st2)"
        by (cases "resolve_context cypher h content user_query st1")
      have r1: "llm_calls st2 = llm_calls st1" and r2: "SESSION_STORE st2 = SESSION_STORE st1"
        using resolve_context_effects [of cypher h content user_query st1] r by simp_all
      show ?thesis
      proof (cases c)
        case (Inl e)
        then show ?thesis by (simp add: turn_def i Inr h r r1 r2 i1 i2)
      next
        case ctx: (Inr c')
        show ?thesis
          using respond_effects [of model model_name session_id c' user_query st2]
          by (simp add: turn_def i Inr h r ctx r1 i1)
      qed
    qed
  qed
qed

lemma loop_effects:
  "set (map fst (llm_calls (snd (loop model cypher model_name session_id typed st))))
     \<subseteq> insert session_id (set (map fst (llm_calls st)))
   \<and> (typed \<noteq> [] \<or> (llm_calls st \<noteq> [] \<and> SESSION_STORE st session_id \<noteq> None)
       \<longrightarrow> llm_calls (snd (loop model cypher model_name session_id typed st)) \<noteq> []
         \<and> SESSION_STORE (snd (loop model cypher model_name session_id typed st)) session_id
             \<noteq> None)"
proof (induction typed arbitrary: st)
  case Nil
  show ?case by auto
next
  case (Cons user_query rest)
  obtain r st1 where t: "turn model cypher model_name session_id user_query st = (r, st1)"
    by (cases "turn model cypher model_name session_id user_query st")
  have t1: "set (map fst (llm_calls st1)) = insert session_id (set (map fst (llm_calls st)))"
    and t2: "llm_calls st1 \<noteq> []" and t3: "SESSION_STORE st1 session_id \<noteq> None"
    using turn_effects [of model cypher model_name session_id user_query st] t by simp_all
  show ?case
  proof (cases r)
    case (Inl e)
    then show ?thesis using t1 t2 t3 by (simp add: t)
  next
    case (Inr u)
    have l: "loop model cypher model_name session_id (user_query # rest) st
               = loop model cypher model_name session_id rest st1"
      by (simp add: t Inr)
    show ?thesis
      unfolding l using Cons.IH [of st1] t1 t2 t3 by auto
  qed
qed

lemma dump_memory_result:
  "fst (dump_memory serialise session_id st)
     = (if SESSION_STORE st session_id = None then Inl KeyError else Inr ())"
  by (simp add: dump_memory_def Let_def split: option.splits)

lemma dump_memory_llm_calls:
  "llm_calls (snd (dump_memory serialise session_id st)) = llm_calls st"
  by (simp add: dump_memory_def Let_def split: option.splits)

lemma loop_never_returns: "fst (loop model cypher model_name session_id typed st) \<noteq> Inr u"
proof (induction typed arbitrary: st)
  case Nil
  show ?case by simp
next
  case (Cons user_query rest)
  then show ?case
    by (cases "turn model cypher model_name session_id user_query st")
       (auto split: sum.splits)
qed

lemma llm_calls_main:
  "set (map fst (llm_calls (snd (main rnd model cypher serialise model_name dump typed))))
     \<subseteq> {generate_session_id rnd 6}"
proof -
  let ?sid = "generate_session_id rnd 6"
  obtain r st1 where l: "loop model cypher model_name ?sid typed (start_state model_name) = (r, st1)"
    by (cases "loop model cypher model_name ?sid typed (start_state model_name)")
  have s: "set (map fst (llm_calls st1)) \<subseteq> {?sid}"
    using loop_effects [of model cypher model_name ?sid typed "start_state model_name"] l
    by (simp add: start_state_def initial_state_def)
  show ?thesis
  proof (cases r)
    case (Inl e)
    then show ?thesis
      using s by (simp add: main_def Let_def l dump_memory_llm_calls)
  next
    case (Inr u)
    then show ?thesis
      using s by (simp add: main_def Let_def l)
  qed
qed

text \<open>
  C8. For every random generator with values in \<open>[0, 1)\<close>, the session id generated
  at the start of \<^verbatim>\<open>main\<close> has exactly 6 characters, each an ASCII letter or digit, and
  every call of the language model in the run carries that same id.
\<close>

theorem session_id_six_alphanumeric:
  assumes "\<forall>i. 0 \<le> rnd i \<and> rnd i < 1"
  shows "length (generate_session_id rnd 6) = 6
    \<and> list_all ascii_alphanumeric (generate_session_id rnd 6)
    \<and> set (map fst (llm_calls (snd (main rnd model cypher serialise model_name dump typed))))
        \<subseteq> {generate_session_id rnd 6}"
proof -
  have r: "nat \<lfloor>rnd i * 62\<rfloor> < 62" for i
    using random_index_in_range [of "rnd i" 62] assms by simp
  have a: "ascii_alphanumeric ((ascii_letters @ digits) ! k)" if "k < 62" for k
    using alphabet_alphanumeric that
    by (simp only: list_all_length length_alphabet)
  have "list_all ascii_alphanumeric (generate_session_id rnd 6)"
    unfolding generate_session_id_map [OF assms]
    using a r by (simp add: list_all_iff del: append.simps)
  moreover have "length (generate_session_id rnd 6) = 6"
    by (simp add: generate_session_id_map [OF assms])
  ultimately show ?thesis
    using llm_calls_main by blast
qed

text \<open>The example generator draws the id \<^verbatim>\<open>"akvFP0"\<close>.\<close>

lemma example_random_range: "\<forall>i. 0 \<le> example_random i \<and> example_random i < 1"
proof
  fix i :: nat
  have "i mod 6 < 6" by simp
  then have "real (i mod 6) \<le> 5" by linarith
  then show "0 \<le> example_random i \<and> example_random i < 1"
    by (simp add: example_random_def)
qed

lemma example_id: "generate_session_id example_random 6 = py ''akvFP0''"
  by (simp add: generate_session_id_map [OF example_random_range] example_random_def
      ascii_letters_def ascii_lowercase_def ascii_uppercase_def digits_def py_def upt_rec)

theorem session_id_six_alphanumeric_witness:
  "generate_session_id example_random 6 = py ''akvFP0''
   \<and> length (generate_session_id example_random 6) = 6
   \<and> list_all ascii_alphanumeric (generate_session_id example_random 6)
   \<and> set (map fst (llm_calls (snd (main example_random (constant_model (py ''M''))
         (answering_chain (py ''1999'')) (\<lambda>ms. []) (py ''gpt-4'') True
         [py ''hello'', py ''bye'']))))
        \<subseteq> {generate_session_id example_random 6}"
  using session_id_six_alphanumeric [OF example_random_range] example_id by blast

subsection \<open>The dump on exit\<close>

text \<open>
  C10. The dump reads the store with an unguarded lookup. When Ctrl+C arrives before
  anything was typed, no call of the language model has created the session, the
  lookup raises KeyError and \<^verbatim>\<open>main\<close> ends with it. In the state the loop ends in,
  the dump succeeds exactly when at least one call of the language model was made,
  which is exactly when a line was typed. With the dump switched on, \<^verbatim>\<open>main\<close>
  returns normally exactly when a line was typed and the loop ended by Ctrl+C.
\<close>

theorem dump_needs_a_model_call:
  "fst (main rnd model cypher serialise model_name True []) = Inl KeyError
   \<and> (let st = snd (loop model cypher model_name session_id typed (start_state model_name))
      in (fst (dump_memory serialise session_id st) = Inr ()) = (llm_calls st \<noteq> [])
       \<and> (fst (dump_memory serialise session_id st) = Inl KeyError) = (llm_calls st = [])
       \<and> (llm_calls st = []) = (typed = []))
   \<and> (fst (main rnd model cypher serialise model_name True typed) = Inr ())
       = (typed \<noteq> []
          \<and> fst (loop model cypher model_name (generate_session_id rnd 6) typed
                 (start_state model_name)) = Inl KeyboardInterrupt)"
proof -
  have empty: "fst (main rnd model cypher serialise model_name True []) = Inl KeyError"
    by (simp add: main_def Let_def dump_memory_result start_state_def initial_state_def)
  have st: "(llm_calls st = []) = (typed = [])
      \<and> (SESSION_STORE st sid = None) = (typed = [])"
    if "st = snd (loop model cypher model_name sid typed (start_state model_name))" for st sid
  proof (cases typed)
    case Nil
    then show ?thesis
      using that by (simp add: start_state_def initial_state_def)
  next
    case (Cons q rest)
    then show ?thesis
      using that loop_effects [of model cypher model_name sid typed "start_state model_name"]
      by simp
  qed
  have dump: "(let st = snd (loop model cypher model_name session_id typed (start_state model_name))
      in (fst (dump_memory serialise session_id st) = Inr ()) = (llm_calls st \<noteq> [])
       \<and> (fst (dump_memory serialise session_id st) = Inl KeyError) = (llm_calls st = [])
       \<and> (llm_calls st = []) = (typed = []))"
    using st [OF refl, of session_id] by (simp add: Let_def dump_memory_result)
  have whole: "(fst (main rnd model cypher serialise model_name True typed) = Inr ())
       = (typed \<noteq> []
          \<and> fst (loop model cypher model_name (generate_session_id rnd 6) typed
                 (start_state model_name)) = Inl KeyboardInterrupt)"
  proof -
    let ?sid = "generate_session_id rnd 6"
    obtain r st1 where l: "loop model cypher model_name ?sid typed (start_state model_name) = (r, st1)"
      by (cases "loop model cypher model_name ?sid typed (start_state model_name)")
    have s: "(SESSION_STORE st1 ?sid = None) = (typed = [])"
      using st [of st1 ?sid] l by simp
    show ?thesis
    proof (cases r)
      case (Inl e)
      then show ?thesis
        using s by (auto simp: main_def Let_def l dump_memory_result)
    next
      case (Inr u)
      then show ?thesis
        using loop_never_returns [of model cypher model_name ?sid typed "start_state model_name" u] l
        by simp
    qed
  qed
  from empty dump whole show ?thesis by blast
qed

end
